theory Spec2Isabelle
  imports Main
begin

section \<open>The WebSocket hook of the Strudel REPL (useWebSocketMCP)\<close>

text \<open>
  The repository holds two copies of the hook \<^verbatim>\<open>useWebSocketMCP\<close>: the named file
  \<^verbatim>\<open>website/src/repl/useWebSocketMCP.jsx\<close> and an unnamed duplicate
  (\<^verbatim>\<open>unnamed/part_001\<close>). Both are embedded here, function by function; the
  definitions of the duplicate carry the suffix \<open>_part001\<close>.

  The hook is a set of callbacks over mutable references. Each callback becomes a function
  from the hook's state to its new state. What the browser does (delivering events, keeping
  the ready state of a socket, firing timers) is written separately, in \<open>step\<close>.
\<close>

subsection \<open>Values\<close>

text \<open>
  What \<^verbatim>\<open>JSON.parse\<close> returns. A property that is not there reads as
  \<^verbatim>\<open>undefined\<close>, which is \<open>None\<close> of \<open>json option\<close>.
\<close>

datatype json =
    JNull
  | JBool bool
  | JNum int
  | JStr string
  | JArr "json list"
  | JObj "(string \<times> json) list"

text \<open>
  \<open>property v k\<close> is the property read \<^verbatim>\<open>v.k\<close> for a value \<open>v\<close> that is not null, and for the
  keys the hook reads (\<^verbatim>\<open>type\<close>, \<^verbatim>\<open>code\<close>, \<^verbatim>\<open>request_id\<close>, \<^verbatim>\<open>metadata\<close>,
  \<^verbatim>\<open>description\<close>): only an object has them. Reading a property of null throws, which the
  callers write out.
\<close>

fun property :: "json \<Rightarrow> string \<Rightarrow> json option" where
  "property (JObj kvs) k = map_of kvs k"
| "property _ k = None"

fun truthy :: "json option \<Rightarrow> bool" where
  "truthy None = False"
| "truthy (Some JNull) = False"
| "truthy (Some (JBool b)) = b"
| "truthy (Some (JNum n)) = (n \<noteq> 0)"
| "truthy (Some (JStr t)) = (t \<noteq> [])"
| "truthy (Some (JArr _)) = True"
| "truthy (Some (JObj _)) = True"

text \<open>\<^verbatim>\<open>h.includes(n)\<close> on strings: \<open>n\<close> occurs in \<open>h\<close> as a contiguous run.\<close>

fun str_includes :: "string \<Rightarrow> string \<Rightarrow> bool" where
  "str_includes [] n = (n = [])"
| "str_includes (c # cs) n = (take (length n) (c # cs) = n \<or> str_includes cs n)"

subsection \<open>The channel\<close>

datatype ready_state = CONNECTING | OPEN | CLOSING | CLOSED

text \<open>
  The two objects the hook sends, before \<^verbatim>\<open>JSON.stringify\<close>:
  \<^verbatim>\<open>{type: 'pong'}\<close> and
  \<^verbatim>\<open>{type: 'current-code-response', request_id, code, timestamp}\<close>.
\<close>

datatype out_msg =
    Pong
  | CurrentCodeResponse "json option" string nat

record socket =
  url :: string
  readyState :: ready_state
  sent :: "out_msg list"

subsection \<open>The editor\<close>

text \<open>
  The editor behind \<^verbatim>\<open>editorRef.current\<close> is not part of the repository. The hook
  reads its code in two ways (the property \<^verbatim>\<open>code\<close> in the named file, the call
  \<^verbatim>\<open>getCode()\<close> in the duplicate); either may throw. The calls \<^verbatim>\<open>setCode\<close>,
  \<^verbatim>\<open>evaluate\<close> and \<^verbatim>\<open>stop\<close> return nothing the hook uses: the model records them,
  in order, and takes them to return.
\<close>

datatype 'a outcome = Throws | Returns 'a

record editor =
  code :: "string outcome"
  getCode :: "string outcome"

datatype call = SetCode "json option" | Evaluate | Stop

subsection \<open>The state of the hook\<close>

text \<open>The calls of \<^verbatim>\<open>console.error\<close>, by the place that makes them.\<close>

datatype log_entry =
    MessageError
  | EditorNotReady
  | GetCodeError
  | NotConnected
  | WebSocketError

text \<open>The object published as \<^verbatim>\<open>window.strudelMCP\<close>: the two values it copies.\<close>

record bridge =
  bridge_sessionId :: string
  bridge_connectionStatus :: string

record location =
  port :: string
  host :: string
  protocol :: string

text \<open>
  \<open>timers\<close> holds the due time of every pending \<^verbatim>\<open>setTimeout(connectWebSocket, 3000)\<close>;
  \<open>clock\<close> is the time in milliseconds, which \<^verbatim>\<open>Date.now()\<close> reads.
\<close>

record hook_state =
  sessionId :: string
  connectionStatus :: string
  wsRef :: "socket option"
  editorRef :: "editor option"
  timers :: "nat list"
  strudelMCP :: "bridge option"
  calls :: "call list"
  console_errors :: "log_entry list"
  clock :: nat

text \<open>A callback body ends normally or by a throw; the state is the one reached.\<close>

datatype completion = Normal hook_state | Thrown hook_state

definition console_error :: "log_entry \<Rightarrow> hook_state \<Rightarrow> hook_state" where
  "console_error e s = s\<lparr>console_errors := console_errors s @ [e]\<rparr>"

text \<open>
  \<^verbatim>\<open>wsRef.current.send(m)\<close>: a TypeError when the reference is null, an
  InvalidStateError while the socket is connecting, the frame on the wire when it is open,
  and nothing once it is closing or closed.
\<close>

definition send :: "out_msg \<Rightarrow> hook_state \<Rightarrow> completion" where
  "send m s =
     (case wsRef s of
        None \<Rightarrow> Thrown s
      | Some ws \<Rightarrow>
          (case readyState ws of
             CONNECTING \<Rightarrow> Thrown s
           | OPEN \<Rightarrow> Normal (s\<lparr>wsRef := Some (ws\<lparr>sent := sent ws @ [m]\<rparr>)\<rparr>)
           | CLOSING \<Rightarrow> Normal s
           | CLOSED \<Rightarrow> Normal s))"

text \<open>\<^verbatim>\<open>wsRef.current && wsRef.current.readyState === WebSocket.OPEN\<close>\<close>

definition ws_is_open :: "hook_state \<Rightarrow> bool" where
  "ws_is_open s = (case wsRef s of None \<Rightarrow> False | Some ws \<Rightarrow> readyState ws = OPEN)"

subsection \<open>The named file\<close>

definition isMCPServer :: "location \<Rightarrow> bool" where
  "isMCPServer loc =
     (port loc = ''8080'' \<or> port loc = ''8000'' \<or>
      str_includes (host loc) ''8080'' \<or> str_includes (host loc) ''8000'')"

definition wsUrl :: "location \<Rightarrow> string \<Rightarrow> string" where
  "wsUrl loc sid =
     (if protocol loc = ''https:'' then ''wss:'' else ''ws:'') @ ''//'' @ host loc @
     ''/strudel/ws?session_id='' @ sid"

definition connectWebSocket :: "location \<Rightarrow> hook_state \<Rightarrow> hook_state" where
  "connectWebSocket loc s =
     (if \<not> isMCPServer loc then s
      else s\<lparr>wsRef := Some \<lparr>url = wsUrl loc (sessionId s), readyState = CONNECTING, sent = []\<rparr>\<rparr>)"

definition onopen :: "hook_state \<Rightarrow> hook_state" where
  "onopen s = s\<lparr>connectionStatus := ''connected''\<rparr>"

definition onclose :: "hook_state \<Rightarrow> hook_state" where
  "onclose s = s\<lparr>connectionStatus := ''disconnected'', timers := timers s @ [clock s + 3000]\<rparr>"

definition onerror :: "hook_state \<Rightarrow> hook_state" where
  "onerror s = (console_error WebSocketError s)\<lparr>connectionStatus := ''error''\<rparr>"

definition sendCurrentCodeToServer :: "json option \<Rightarrow> hook_state \<Rightarrow> completion" where
  "sendCurrentCodeToServer requestId s =
     (case editorRef s of
        None \<Rightarrow>
          (let s1 = console_error EditorNotReady s in
           if ws_is_open s1
           then send (CurrentCodeResponse requestId ''// Error: Editor not ready'' (clock s1)) s1
           else Normal s1)
      | Some ed \<Rightarrow>
          (let (currentCode, s1) =
                 (case code ed of
                    Returns c \<Rightarrow> (if c = [] then ''// No code in editor'' else c, s)
                  | Throws \<Rightarrow> (''// Error: Could not retrieve code'', console_error GetCodeError s))
           in if ws_is_open s1
              then send (CurrentCodeResponse requestId currentCode (clock s1)) s1
              else Normal (console_error NotConnected s1)))"

text \<open>
  \<^verbatim>\<open>data.metadata?.description || ''\<close>. The handler binds it to a constant it never
  reads.
\<close>

definition description_of :: "json \<Rightarrow> json" where
  "description_of data =
     (let d = (case property data ''metadata'' of
                 None \<Rightarrow> None
               | Some JNull \<Rightarrow> None
               | Some m \<Rightarrow> property m ''description'')
      in case d of
           None \<Rightarrow> JStr []
         | Some v \<Rightarrow> if truthy d then v else JStr [])"

text \<open>
  The handler of a frame. Its argument is what \<^verbatim>\<open>JSON.parse(event.data)\<close> makes of the
  frame: \<open>None\<close> when it throws. \<open>onmessage_try\<close> is the body of the \<^verbatim>\<open>try\<close>.
\<close>

definition onmessage_try :: "json option \<Rightarrow> hook_state \<Rightarrow> completion" where
  "onmessage_try parsed s =
     (case parsed of
        None \<Rightarrow> Thrown s
      | Some JNull \<Rightarrow> Thrown s
      | Some data \<Rightarrow>
          if property data ''type'' = Some (JStr ''strudel-code'') then
            (let description = description_of data in
             case editorRef s of
               Some ed \<Rightarrow> Normal (s\<lparr>calls := calls s @ [SetCode (property data ''code''), Evaluate]\<rparr>)
             | None \<Rightarrow> Normal s)
          else if property data ''type'' = Some (JStr ''strudel-stop'') \<or>
                  property data ''type'' = Some (JStr ''stop'') then
            (case editorRef s of
               Some ed \<Rightarrow> Normal (s\<lparr>calls := calls s @ [Stop]\<rparr>)
             | None \<Rightarrow> Normal s)
          else if property data ''type'' = Some (JStr ''get-current-code'') then
            sendCurrentCodeToServer (property data ''request_id'') s
          else if property data ''type'' = Some (JStr ''ping'') then
            send Pong s
          else Normal s)"

definition onmessage :: "json option \<Rightarrow> hook_state \<Rightarrow> hook_state" where
  "onmessage parsed s =
     (case onmessage_try parsed s of
        Normal s' \<Rightarrow> s'
      | Thrown s' \<Rightarrow> console_error MessageError s')"

text \<open>The first effect stores the generated identifier.\<close>

definition setSessionId :: "string \<Rightarrow> hook_state \<Rightarrow> hook_state" where
  "setSessionId newSessionId s = s\<lparr>sessionId := newSessionId\<rparr>"

text \<open>The second effect, and the function it returns for teardown.\<close>

definition sessionEffect :: "location \<Rightarrow> hook_state \<Rightarrow> hook_state" where
  "sessionEffect loc s = (if sessionId s \<noteq> [] then connectWebSocket loc s else s)"

text \<open>
  \<^verbatim>\<open>ws.close()\<close>: a socket that is connecting or open starts closing; the close event,
  and with it \<open>onclose\<close>, comes later from the browser.
\<close>

definition ws_close :: "socket \<Rightarrow> socket" where
  "ws_close ws =
     (case readyState ws of
        CONNECTING \<Rightarrow> ws\<lparr>readyState := CLOSING\<rparr>
      | OPEN \<Rightarrow> ws\<lparr>readyState := CLOSING\<rparr>
      | CLOSING \<Rightarrow> ws
      | CLOSED \<Rightarrow> ws)"

definition cleanup :: "hook_state \<Rightarrow> hook_state" where
  "cleanup s =
     (case wsRef s of
        None \<Rightarrow> s
      | Some ws \<Rightarrow> s\<lparr>wsRef := Some (ws_close ws)\<rparr>)"

text \<open>The third effect publishes the global object.\<close>

definition isMCPServer_globalAPI :: "location \<Rightarrow> bool" where
  "isMCPServer_globalAPI loc = (port loc = ''8080'' \<or> str_includes (host loc) ''8080'')"

definition globalAPIEffect :: "location \<Rightarrow> hook_state \<Rightarrow> hook_state" where
  "globalAPIEffect loc s =
     (if isMCPServer_globalAPI loc \<and> editorRef s \<noteq> None
      then s\<lparr>strudelMCP := Some \<lparr>bridge_sessionId = sessionId s,
                                  bridge_connectionStatus = connectionStatus s\<rparr>\<rparr>
      else s)"

text \<open>The field \<^verbatim>\<open>isMCPEnabled\<close> of the value the hook returns.\<close>

definition isMCPEnabled :: "location \<Rightarrow> bool" where
  "isMCPEnabled loc =
     (port loc = ''8080'' \<or> port loc = ''8000'' \<or>
      str_includes (host loc) ''8080'' \<or> str_includes (host loc) ''8000'')"

subsection \<open>The unnamed duplicate\<close>

definition isMCPServer_part001 :: "location \<Rightarrow> bool" where
  "isMCPServer_part001 loc = (port loc = ''8080'' \<or> str_includes (host loc) ''8080'')"

definition connectWebSocket_part001 :: "location \<Rightarrow> hook_state \<Rightarrow> hook_state" where
  "connectWebSocket_part001 loc s =
     (if \<not> isMCPServer_part001 loc then s
      else s\<lparr>wsRef := Some \<lparr>url = wsUrl loc (sessionId s), readyState = CONNECTING, sent = []\<rparr>\<rparr>)"

text \<open>
  Here the code is read by \<^verbatim>\<open>getCode()\<close>, outside any \<^verbatim>\<open>try\<close> of its own: a throw
  leaves the function and reaches the \<^verbatim>\<open>catch\<close> of the message handler.
\<close>

definition sendCurrentCodeToServer_part001 :: "json option \<Rightarrow> hook_state \<Rightarrow> completion" where
  "sendCurrentCodeToServer_part001 requestId s =
     (case editorRef s of
        None \<Rightarrow> Normal (console_error EditorNotReady s)
      | Some ed \<Rightarrow>
          (case getCode ed of
             Throws \<Rightarrow> Thrown s
           | Returns c \<Rightarrow>
               (let currentCode = (if c = [] then ''// No code in editor'' else c)
                in if ws_is_open s
                   then send (CurrentCodeResponse requestId currentCode (clock s)) s
                   else Normal (console_error NotConnected s))))"

definition onmessage_try_part001 :: "json option \<Rightarrow> hook_state \<Rightarrow> completion" where
  "onmessage_try_part001 parsed s =
     (case parsed of
        None \<Rightarrow> Thrown s
      | Some JNull \<Rightarrow> Thrown s
      | Some data \<Rightarrow>
          if property data ''type'' = Some (JStr ''strudel-code'') then
            (let description = description_of data in
             case editorRef s of
               Some ed \<Rightarrow> Normal (s\<lparr>calls := calls s @ [SetCode (property data ''code''), Evaluate]\<rparr>)
             | None \<Rightarrow> Normal s)
          else if property data ''type'' = Some (JStr ''strudel-stop'') \<or>
                  property data ''type'' = Some (JStr ''stop'') then
            (case editorRef s of
               Some ed \<Rightarrow> Normal (s\<lparr>calls := calls s @ [Stop]\<rparr>)
             | None \<Rightarrow> Normal s)
          else if property data ''type'' = Some (JStr ''get-current-code'') then
            sendCurrentCodeToServer_part001 (property data ''request_id'') s
          else if property data ''type'' = Some (JStr ''ping'') then
            send Pong s
          else Normal s)"

definition onmessage_part001 :: "json option \<Rightarrow> hook_state \<Rightarrow> hook_state" where
  "onmessage_part001 parsed s =
     (case onmessage_try_part001 parsed s of
        Normal s' \<Rightarrow> s'
      | Thrown s' \<Rightarrow> console_error MessageError s')"

subsection \<open>The browser\<close>

text \<open>
  The event loop runs one callback at a time. An event is delivered only when the socket
  is in a state that allows it: the open event to a connecting socket, a frame to an open
  one, the error and close events to one not yet closed. A timer fires only once its due
  time has come. The browser sets the ready state before it calls the handler: open at the
  open event, closed at the close event; after an error the socket is on its way to
  closed, and the close event follows.
\<close>

datatype event =
    EvSetSessionId string
  | EvSessionEffect
  | EvGlobalAPIEffect
  | EvOpen
  | EvMessage "json option"
  | EvError
  | EvClose
  | EvTimer
  | EvTick nat
  | EvCleanup

definition set_readyState :: "ready_state \<Rightarrow> hook_state \<Rightarrow> hook_state" where
  "set_readyState r s =
     (case wsRef s of
        None \<Rightarrow> s
      | Some ws \<Rightarrow> s\<lparr>wsRef := Some (ws\<lparr>readyState := r\<rparr>)\<rparr>)"

definition ws_state :: "hook_state \<Rightarrow> ready_state option" where
  "ws_state s = map_option readyState (wsRef s)"

fun due :: "nat \<Rightarrow> nat list \<Rightarrow> nat option" where
  "due t [] = None"
| "due t (d # ds) = (if d \<le> t then Some d else due t ds)"

fun step :: "location \<Rightarrow> event \<Rightarrow> hook_state \<Rightarrow> hook_state option" where
  "step loc (EvSetSessionId i) s = Some (setSessionId i s)"
| "step loc EvSessionEffect s = Some (sessionEffect loc s)"
| "step loc EvGlobalAPIEffect s = Some (globalAPIEffect loc s)"
| "step loc EvOpen s =
     (if ws_state s = Some CONNECTING then Some (onopen (set_readyState OPEN s)) else None)"
| "step loc (EvMessage parsed) s =
     (if ws_state s = Some OPEN then Some (onmessage parsed s) else None)"
| "step loc EvError s =
     (if ws_state s \<in> {Some CONNECTING, Some OPEN, Some CLOSING}
      then Some (onerror (set_readyState CLOSING s)) else None)"
| "step loc EvClose s =
     (if ws_state s \<in> {Some CONNECTING, Some OPEN, Some CLOSING}
      then Some (onclose (set_readyState CLOSED s)) else None)"
| "step loc EvTimer s =
     (case due (clock s) (timers s) of
        None \<Rightarrow> None
      | Some d \<Rightarrow> Some (connectWebSocket loc (s\<lparr>timers := remove1 d (timers s)\<rparr>)))"
| "step loc (EvTick n) s = Some (s\<lparr>clock := clock s + n\<rparr>)"
| "step loc EvCleanup s = Some (cleanup s)"

fun run :: "location \<Rightarrow> event list \<Rightarrow> hook_state \<Rightarrow> hook_state option" where
  "run loc [] s = Some s"
| "run loc (e # es) s =
     (case step loc e s of
        None \<Rightarrow> None
      | Some s' \<Rightarrow> run loc es s')"

text \<open>The state when the hook is first called, with or without an editor.\<close>

definition init :: "editor option \<Rightarrow> hook_state" where
  "init ed =
     \<lparr>sessionId = [], connectionStatus = ''disconnected'', wsRef = None, editorRef = ed,
      timers = [], strudelMCP = None, calls = [], console_errors = [], clock = 0\<rparr>"

subsection \<open>Observations and example inputs\<close>

text \<open>The frames the current socket has put on the wire.\<close>

definition sent_frames :: "hook_state \<Rightarrow> out_msg list" where
  "sent_frames s = (case wsRef s of None \<Rightarrow> [] | Some ws \<Rightarrow> sent ws)"

text \<open>The tags the message handler compares \<^verbatim>\<open>data.type\<close> with.\<close>

definition recognized_types :: "string list" where
  "recognized_types =
     [''strudel-code'', ''strudel-stop'', ''stop'', ''get-current-code'', ''ping'']"

text \<open>
  The code of a response as the specification words it: a placeholder when no editor is
  attached, another when reading throws, a third when the code read is empty, and the
  code read otherwise.
\<close>

definition spec_response_code :: "editor option \<Rightarrow> string" where
  "spec_response_code e =
     (case e of
        None \<Rightarrow> ''// Error: Editor not ready''
      | Some ed \<Rightarrow>
          (case code ed of
             Throws \<Rightarrow> ''// Error: Could not retrieve code''
           | Returns c \<Rightarrow> if c = [] then ''// No code in editor'' else c))"

text \<open>What \<open>sendCurrentCodeToServer\<close> writes with \<^verbatim>\<open>console.error\<close> before it sends.\<close>

definition read_log :: "hook_state \<Rightarrow> hook_state" where
  "read_log s =
     (case editorRef s of
        None \<Rightarrow> console_error EditorNotReady s
      | Some ed \<Rightarrow>
          (case code ed of
             Throws \<Rightarrow> console_error GetCodeError s
           | Returns c \<Rightarrow> s))"

text \<open>
  One attempt and its loss: the socket opens or not, then closes; three seconds pass and
  the timer fires.
\<close>

definition reconnect_cycle :: "bool \<Rightarrow> event list" where
  "reconnect_cycle opened = (if opened then [EvOpen] else []) @ [EvClose, EvTick 3000, EvTimer]"

text \<open>The status before each event of a run, and after the last.\<close>

fun status_trace :: "location \<Rightarrow> event list \<Rightarrow> hook_state \<Rightarrow> string list" where
  "status_trace loc [] s = [connectionStatus s]"
| "status_trace loc (e # es) s =
     connectionStatus s #
     (case step loc e s of None \<Rightarrow> [] | Some s' \<Rightarrow> status_trace loc es s')"

definition loc8080 :: location where
  "loc8080 = \<lparr>port = ''8080'', host = ''localhost:8080'', protocol = ''http:''\<rparr>"

definition loc8000 :: location where
  "loc8000 = \<lparr>port = ''8000'', host = ''localhost:8000'', protocol = ''http:''\<rparr>"

definition loc4321 :: location where
  "loc4321 = \<lparr>port = ''4321'', host = ''localhost:4321'', protocol = ''http:''\<rparr>"

text \<open>An editor that holds the code \<open>c\<close> in its property and has no method \<^verbatim>\<open>getCode\<close>.\<close>

definition editor_with_code :: "string \<Rightarrow> editor" where
  "editor_with_code c = \<lparr>code = Returns c, getCode = Throws\<rparr>"

definition open_socket :: socket where
  "open_socket =
     \<lparr>url = ''ws://localhost:8080/strudel/ws?session_id=abc1'', readyState = OPEN, sent = []\<rparr>"

text \<open>The hook on port 8080, its session named and its channel open.\<close>

definition connected_state :: "editor option \<Rightarrow> hook_state" where
  "connected_state ed =
     (init ed)\<lparr>sessionId := ''abc1'', connectionStatus := ''connected'',
               wsRef := Some open_socket\<rparr>"

text \<open>The same hook just after \<open>connectWebSocket\<close>, its socket still connecting.\<close>

definition connecting_state :: "editor option \<Rightarrow> hook_state" where
  "connecting_state ed =
     (init ed)\<lparr>sessionId := ''abc1'',
               wsRef := Some (open_socket\<lparr>readyState := CONNECTING\<rparr>)\<rparr>"

definition mount_and_open :: "event list" where
  "mount_and_open = [EvSetSessionId ''abc1'', EvSessionEffect, EvOpen]"

definition request_r1 :: json where
  "request_r1 = JObj [(''type'', JStr ''get-current-code''), (''request_id'', JStr ''r1'')]"

section \<open>Properties\<close>

subsection \<open>Helper facts\<close>

lemma property_not_null: "property data k = Some v \<Longrightarrow> data \<noteq> JNull"
  by (cases data) simp_all

lemma onmessage_try_not_null:
  "data \<noteq> JNull \<Longrightarrow> onmessage_try (Some data) s =
     (if property data ''type'' = Some (JStr ''strudel-code'') then
        (case editorRef s of
           Some ed \<Rightarrow> Normal (s\<lparr>calls := calls s @ [SetCode (property data ''code''), Evaluate]\<rparr>)
         | None \<Rightarrow> Normal s)
      else if property data ''type'' = Some (JStr ''strudel-stop'') \<or>
              property data ''type'' = Some (JStr ''stop'') then
        (case editorRef s of
           Some ed \<Rightarrow> Normal (s\<lparr>calls := calls s @ [Stop]\<rparr>)
         | None \<Rightarrow> Normal s)
      else if property data ''type'' = Some (JStr ''get-current-code'') then
        sendCurrentCodeToServer (property data ''request_id'') s
      else if property data ''type'' = Some (JStr ''ping'') then
        send Pong s
      else Normal s)"
  by (cases data) (auto simp: onmessage_try_def Let_def split: option.splits)

lemma sendCurrentCodeToServer_open:
  assumes "wsRef s = Some ws" and "readyState ws = OPEN"
  shows "sendCurrentCodeToServer rid s =
           Normal ((read_log s)\<lparr>wsRef := Some (ws\<lparr>sent := sent ws @
             [CurrentCodeResponse rid (spec_response_code (editorRef s)) (clock s)]\<rparr>)\<rparr>)"
proof (cases "editorRef s")
  case None
  with assms show ?thesis
    by (simp add: sendCurrentCodeToServer_def ws_is_open_def send_def console_error_def
        spec_response_code_def read_log_def Let_def)
next
  case (Some ed)
  with assms show ?thesis
    by (cases "code ed")
      (simp_all add: sendCurrentCodeToServer_def ws_is_open_def send_def console_error_def
        spec_response_code_def read_log_def Let_def)
qed

lemma run_append:
  "run loc (xs @ ys) s = (case run loc xs s of None \<Rightarrow> None | Some s' \<Rightarrow> run loc ys s')"
  by (induction xs arbitrary: s) (simp_all split: option.splits)

lemma ws_state_Some:
  "ws_state s = Some r \<longleftrightarrow> (\<exists>ws. wsRef s = Some ws \<and> readyState ws = r)"
  by (cases "wsRef s") (auto simp: ws_state_def)

lemma mount_and_open_reaches:
  "run loc8080 mount_and_open (init ed) = Some (connected_state ed)"
  by (simp add: mount_and_open_def loc8080_def init_def connected_state_def open_socket_def
      setSessionId_def sessionEffect_def connectWebSocket_def isMCPServer_def wsUrl_def
      ws_state_def set_readyState_def onopen_def)

lemma mount_reaches_connecting:
  "run loc8080 [EvSetSessionId ''abc1'', EvSessionEffect] (init ed) = Some (connecting_state ed)"
  by (simp add: loc8080_def init_def connecting_state_def open_socket_def
      setSessionId_def sessionEffect_def connectWebSocket_def isMCPServer_def wsUrl_def)

lemma globalAPI_gate_implies_channel_gate: "isMCPServer_globalAPI loc \<Longrightarrow> isMCPServer loc"
  by (auto simp: isMCPServer_globalAPI_def isMCPServer_def)

lemma inert_outside_allow_list:
  "\<not> isMCPServer loc \<Longrightarrow> connectWebSocket loc s = s \<and> globalAPIEffect loc s = s"
  using globalAPI_gate_implies_channel_gate[of loc]
  by (auto simp: connectWebSocket_def globalAPIEffect_def)

lemma inert_on_port_4321:
  "\<not> isMCPEnabled loc4321 \<and> sessionEffect loc4321 s = s \<and> globalAPIEffect loc4321 s = s"
proof -
  have "\<not> isMCPServer loc4321"
    by (simp add: loc4321_def isMCPServer_def)
  with inert_outside_allow_list[of loc4321 s] show ?thesis
    by (simp add: sessionEffect_def isMCPEnabled_def isMCPServer_def)
qed

subsection \<open>Answering a request for the current code\<close>

text \<open>
  C1. Every \<^verbatim>\<open>get-current-code\<close> received while the channel is connected is answered by
  exactly one \<^verbatim>\<open>current-code-response\<close> with the same \<^verbatim>\<open>request_id\<close>, whether the
  editor is attached, absent, or throws when its code is read.

  The named file does so (see \<open>current_code_response_payload\<close> below). The duplicate does
  not: on an open channel, with no editor attached, or with an editor whose
  \<^verbatim>\<open>getCode()\<close> throws, its handler sends nothing, where the named file sends the
  not-ready response for the same request.
\<close>

theorem part001_silent_without_editor:
  "sent_frames (onmessage_part001 (Some request_r1) (connected_state None)) = [] \<and>
   sent_frames (onmessage_part001 (Some request_r1)
                  (connected_state (Some (editor_with_code ''note(60)'')))) = [] \<and>
   sent_frames (onmessage (Some request_r1) (connected_state None)) =
     [CurrentCodeResponse (Some (JStr ''r1'')) ''// Error: Editor not ready'' 0]"
  by (simp add: sent_frames_def onmessage_part001_def onmessage_try_part001_def
      onmessage_def onmessage_try_def sendCurrentCodeToServer_part001_def
      sendCurrentCodeToServer_def request_r1_def connected_state_def open_socket_def
      init_def editor_with_code_def console_error_def ws_is_open_def send_def Let_def)

text \<open>
  C2. For a \<^verbatim>\<open>get-current-code\<close> request handled while the channel is open, the named file
  sends one response: it carries the \<^verbatim>\<open>request_id\<close> of the request, the time of sending,
  and as code the not-ready placeholder when no editor is attached, the retrieval-error
  placeholder when reading throws, the no-code placeholder when the code read is empty,
  and otherwise the code read (\<open>spec_response_code\<close>).
\<close>

theorem current_code_response_payload:
  assumes "wsRef s = Some ws" and "readyState ws = OPEN"
    and "property data ''type'' = Some (JStr ''get-current-code'')"
  shows "sent_frames (onmessage (Some data) s) =
           sent_frames s @
           [CurrentCodeResponse (property data ''request_id'')
              (spec_response_code (editorRef s)) (clock s)]"
  using assms(1) property_not_null[OF assms(3)] assms(3)
  by (simp add: onmessage_def onmessage_try_not_null
      sendCurrentCodeToServer_open[OF assms(1,2)] sent_frames_def)

theorem current_code_response_payload_witness:
  "wsRef (connected_state (Some (editor_with_code ''note(60)''))) = Some open_socket \<and>
   readyState open_socket = OPEN \<and>
   property request_r1 ''type'' = Some (JStr ''get-current-code'') \<and>
   sent_frames (onmessage (Some request_r1)
                  (connected_state (Some (editor_with_code ''note(60)'')))) =
     [CurrentCodeResponse (Some (JStr ''r1'')) ''note(60)'' 0]"
  using current_code_response_payload
          [of "connected_state (Some (editor_with_code ''note(60)''))" open_socket request_r1]
  by (simp add: connected_state_def open_socket_def request_r1_def init_def
      editor_with_code_def sent_frames_def spec_response_code_def)


subsection \<open>Reconnecting\<close>

lemma ws_state_alive:
  "ws_state s \<in> {Some CONNECTING, Some OPEN, Some CLOSING} \<longleftrightarrow>
     (\<exists>ws. wsRef s = Some ws \<and> readyState ws \<noteq> CLOSED)"
proof (cases "wsRef s")
  case None
  then show ?thesis by (simp add: ws_state_def)
next
  case (Some ws)
  then show ?thesis by (cases "readyState ws") (simp_all add: ws_state_def)
qed

lemma close_then_timer:
  assumes "ws_state s \<in> {Some CONNECTING, Some OPEN, Some CLOSING}" and "timers s = []"
  shows "run loc [EvClose, EvTick d, EvTimer] s =
           (if d < 3000 then None
            else Some (connectWebSocket loc
                        ((set_readyState CLOSED s)\<lparr>connectionStatus := ''disconnected'',
                                                   clock := clock s + d, timers := []\<rparr>)))"
proof -
  from assms(1)[unfolded ws_state_alive] obtain ws
    where ws: "wsRef s = Some ws" "readyState ws \<noteq> CLOSED"
    by blast
  from assms(1) have "step loc EvClose s = Some (onclose (set_readyState CLOSED s))"
    by simp
  with ws assms(2) show ?thesis
    by (simp add: set_readyState_def onclose_def)
qed

lemma one_cycle:
  assumes "isMCPServer loc" and "ws_state s = Some CONNECTING" and "timers s = []"
  shows "\<exists>s'. run loc (reconnect_cycle opened) s = Some s' \<and> ws_state s' = Some CONNECTING \<and>
              timers s' = [] \<and> clock s' = clock s + 3000"
proof -
  from assms(2) obtain ws where ws: "wsRef s = Some ws" "readyState ws = CONNECTING"
    by (auto simp: ws_state_Some)
  with assms(1,3) show ?thesis
    by (simp add: reconnect_cycle_def ws_state_def set_readyState_def onclose_def
        connectWebSocket_def onopen_def)
qed

lemma many_cycles:
  assumes "isMCPServer loc"
  shows "ws_state s = Some CONNECTING \<Longrightarrow> timers s = [] \<Longrightarrow>
         \<exists>s'. run loc (concat (map reconnect_cycle bs)) s = Some s' \<and>
              ws_state s' = Some CONNECTING \<and> timers s' = [] \<and>
              clock s' = clock s + 3000 * length bs"
proof (induction bs arbitrary: s)
  case Nil
  then show ?case by simp
next
  case (Cons b bs)
  from one_cycle[OF assms Cons.prems] obtain s1 where
    s1: "run loc (reconnect_cycle b) s = Some s1" "ws_state s1 = Some CONNECTING"
        "timers s1 = []" "clock s1 = clock s + 3000"
    by blast
  from Cons.IH[OF s1(2,3)] obtain s' where
    s': "run loc (concat (map reconnect_cycle bs)) s1 = Some s'"
        "ws_state s' = Some CONNECTING" "timers s' = []"
        "clock s' = clock s1 + 3000 * length bs"
    by blast
  from s1 s' show ?case
    by (simp add: run_append)
qed

text \<open>
  C3. Every close of the channel schedules a reconnect after the same fixed delay of
  3000 ms: the handler adds one timer due 3000 ms after the close, whatever the state and
  however many closes came before. After a close the attempt cannot happen before the
  3000 ms have passed, and it happens when they have. Any number of losses in a row,
  whether the socket had opened or the attempt had failed, are each retried after
  3000 ms: the delay does not grow and the retries are not counted.
\<close>

theorem reconnect_fixed_delay:
  "onclose s = s\<lparr>connectionStatus := ''disconnected'', timers := timers s @ [clock s + 3000]\<rparr> \<and>
   (ws_state s \<in> {Some CONNECTING, Some OPEN, Some CLOSING} \<and> timers s = [] \<longrightarrow>
      (\<forall>d<3000. run loc [EvClose, EvTick d, EvTimer] s = None) \<and>
      run loc [EvClose, EvTick 3000, EvTimer] s =
        Some (connectWebSocket loc
               ((set_readyState CLOSED s)\<lparr>connectionStatus := ''disconnected'',
                                          clock := clock s + 3000, timers := []\<rparr>))) \<and>
   (isMCPServer loc \<and> ws_state s = Some CONNECTING \<and> timers s = [] \<longrightarrow>
      (\<forall>bs. \<exists>s'. run loc (concat (map reconnect_cycle bs)) s = Some s' \<and>
                  ws_state s' = Some CONNECTING \<and> timers s' = [] \<and>
                  clock s' = clock s + 3000 * length bs))"
proof -
  have "onclose s =
          s\<lparr>connectionStatus := ''disconnected'', timers := timers s @ [clock s + 3000]\<rparr>"
    by (simp add: onclose_def)
  moreover have "\<forall>d<3000. run loc [EvClose, EvTick d, EvTimer] s = None"
    if "ws_state s \<in> {Some CONNECTING, Some OPEN, Some CLOSING}" "timers s = []"
    using close_then_timer[OF that] by simp
  moreover have "run loc [EvClose, EvTick 3000, EvTimer] s =
        Some (connectWebSocket loc
               ((set_readyState CLOSED s)\<lparr>connectionStatus := ''disconnected'',
                                          clock := clock s + 3000, timers := []\<rparr>))"
    if "ws_state s \<in> {Some CONNECTING, Some OPEN, Some CLOSING}" "timers s = []"
    using close_then_timer[OF that, of loc 3000] by simp
  ultimately show ?thesis
    using many_cycles[of loc s] by blast
qed

theorem reconnect_fixed_delay_witness:
  "ws_state (connected_state None) = Some OPEN \<and> timers (connected_state None) = [] \<and>
   run loc8080 [EvClose, EvTick 2999, EvTimer] (connected_state None) = None \<and>
   map_option ws_state
     (run loc8080 [EvClose, EvTick 3000, EvTimer] (connected_state None)) =
     Some (Some CONNECTING) \<and>
   isMCPServer loc8080 \<and> ws_state (connecting_state None) = Some CONNECTING \<and>
   timers (connecting_state None) = [] \<and>
   (\<exists>s'. run loc8080 (concat (map reconnect_cycle [True, False, False, True, False]))
            (connecting_state None) = Some s' \<and>
         ws_state s' = Some CONNECTING \<and> clock s' = 15000)"
proof -
  have h1: "ws_state (connected_state None) = Some OPEN \<and> timers (connected_state None) = []"
    by (simp add: ws_state_def connected_state_def open_socket_def init_def)
  have h2: "isMCPServer loc8080 \<and> ws_state (connecting_state None) = Some CONNECTING \<and>
            timers (connecting_state None) = []"
    by (simp add: loc8080_def isMCPServer_def ws_state_def connecting_state_def
        open_socket_def init_def)
  note t1 = reconnect_fixed_delay[of "connected_state None" loc8080]
  note t2 = reconnect_fixed_delay[of "connecting_state None" loc8080]
  from t1 h1 have a: "\<forall>d<3000. run loc8080 [EvClose, EvTick d, EvTimer] (connected_state None) = None"
    by simp
  from a have a': "run loc8080 [EvClose, EvTick 2999, EvTimer] (connected_state None) = None"
    by simp
  from t1 h1 have "run loc8080 [EvClose, EvTick 3000, EvTimer] (connected_state None) =
        Some (connectWebSocket loc8080
               ((set_readyState CLOSED (connected_state None))
                  \<lparr>connectionStatus := ''disconnected'',
                   clock := clock (connected_state None) + 3000, timers := []\<rparr>))"
    by simp
  then have b: "map_option ws_state
     (run loc8080 [EvClose, EvTick 3000, EvTimer] (connected_state None)) =
     Some (Some CONNECTING)"
    using h2 by (simp add: connectWebSocket_def ws_state_def)
  from t2 h2 have "\<forall>bs. \<exists>s'. run loc8080 (concat (map reconnect_cycle bs))
                              (connecting_state None) = Some s' \<and>
                  ws_state s' = Some CONNECTING \<and> timers s' = [] \<and>
                  clock s' = clock (connecting_state None) + 3000 * length bs"
    by blast
  from this[rule_format, of "[True, False, False, True, False]"] obtain s' where
    "run loc8080 (concat (map reconnect_cycle [True, False, False, True, False]))
       (connecting_state None) = Some s'"
    "ws_state s' = Some CONNECTING"
    "clock s' = clock (connecting_state None) + 3000 * length [True, False, False, True, False]"
    by blast
  then have c: "\<exists>s'. run loc8080 (concat (map reconnect_cycle [True, False, False, True, False]))
            (connecting_state None) = Some s' \<and>
         ws_state s' = Some CONNECTING \<and> clock s' = 15000"
    by (simp add: connecting_state_def init_def)
  from h1 h2 a' b c show ?thesis by blast
qed

text \<open>
  C4. After teardown the channel is closed and no reconnect tied to the session occurs any
  more; a reconnect timer pending at teardown opens no new channel.

  The hook does not keep this. Its teardown only calls \<^verbatim>\<open>close()\<close>; the close event then
  schedules a reconnect as for any other close, and a timer already pending is not
  cancelled. In both runs below a new socket for the session \<^verbatim>\<open>abc1\<close> is connecting
  three seconds after the teardown: first with the channel open at teardown, then with
  the channel already lost and its timer pending.
\<close>

theorem teardown_does_not_stop_reconnect:
  "map_option wsRef
     (run loc8080 (mount_and_open @ [EvCleanup, EvClose, EvTick 3000, EvTimer]) (init None)) =
   Some (Some \<lparr>url = ''ws://localhost:8080/strudel/ws?session_id=abc1'',
               readyState = CONNECTING, sent = []\<rparr>) \<and>
   map_option wsRef
     (run loc8080 (mount_and_open @ [EvClose, EvCleanup, EvTick 3000, EvTimer]) (init None)) =
   Some (Some \<lparr>url = ''ws://localhost:8080/strudel/ws?session_id=abc1'',
               readyState = CONNECTING, sent = []\<rparr>)"
  by (simp add: mount_and_open_def loc8080_def init_def setSessionId_def sessionEffect_def
      connectWebSocket_def isMCPServer_def wsUrl_def ws_state_def set_readyState_def
      onopen_def onclose_def cleanup_def ws_close_def)

subsection \<open>The connection status\<close>

lemma onmessage_status: "connectionStatus (onmessage parsed s) = connectionStatus s"
  by (auto simp: onmessage_def onmessage_try_def sendCurrentCodeToServer_def send_def
      console_error_def ws_is_open_def Let_def
      split: option.splits json.splits outcome.splits ready_state.splits)

lemma step_status:
  assumes "step loc e s = Some s'"
  shows "connectionStatus s' =
           (case e of EvOpen \<Rightarrow> ''connected'' | EvClose \<Rightarrow> ''disconnected''
            | EvError \<Rightarrow> ''error'' | _ \<Rightarrow> connectionStatus s)"
proof (cases e)
  case (EvMessage parsed)
  with assms onmessage_status[of parsed s] show ?thesis
    by (simp split: if_splits)
next
  case EvTimer
  with assms show ?thesis
    by (auto simp: connectWebSocket_def split: option.splits)
qed (use assms in \<open>auto simp: setSessionId_def sessionEffect_def globalAPIEffect_def
      connectWebSocket_def onopen_def onclose_def onerror_def console_error_def cleanup_def
      split: if_splits option.splits\<close>)

lemma run_status_invariant:
  "connectionStatus s \<in> {''disconnected'', ''connected'', ''error''} \<Longrightarrow>
   run loc es s = Some s' \<Longrightarrow>
   connectionStatus s' \<in> {''disconnected'', ''connected'', ''error''}"
proof (induction es arbitrary: s)
  case Nil
  then show ?case by simp
next
  case (Cons e es)
  from Cons.prems(2) obtain s1 where s1: "step loc e s = Some s1" "run loc es s1 = Some s'"
    by (auto split: option.splits)
  from step_status[OF s1(1)] Cons.prems(1)
  have "connectionStatus s1 \<in> {''disconnected'', ''connected'', ''error''}"
    by (cases e) auto
  from Cons.IH[OF this s1(2)] show ?case .
qed

text \<open>
  C5, as the specification states it: the status is one of Disconnected, Connecting,
  Connected, Error, and a successful open passes from Disconnected through Connecting to
  Connected. The hook has no status \<^verbatim>\<open>connecting\<close>: from mount to the open event the
  status stays \<^verbatim>\<open>disconnected\<close> and then becomes \<^verbatim>\<open>connected\<close>.
\<close>

theorem no_connecting_status:
  "status_trace loc8080 mount_and_open (init None) =
     [''disconnected'', ''disconnected'', ''disconnected'', ''connected''] \<and>
   ''connecting'' \<notin> set (status_trace loc8080 mount_and_open (init None))"
  by (simp add: mount_and_open_def loc8080_def init_def setSessionId_def sessionEffect_def
      connectWebSocket_def isMCPServer_def wsUrl_def ws_state_def set_readyState_def
      onopen_def)

text \<open>
  C5, amended. The status starts as \<^verbatim>\<open>disconnected\<close> and is always one of
  \<^verbatim>\<open>disconnected\<close>, \<^verbatim>\<open>connected\<close>, \<^verbatim>\<open>error\<close>. The open event sets it to
  \<^verbatim>\<open>connected\<close> (directly, there is no connecting status), the close event to
  \<^verbatim>\<open>disconnected\<close>, the error event to \<^verbatim>\<open>error\<close> (and the close event that follows to
  \<^verbatim>\<open>disconnected\<close>); nothing else changes it.
\<close>

theorem status_state_machine:
  "connectionStatus (init ed) = ''disconnected'' \<and>
   (\<forall>es s'. run loc es (init ed) = Some s' \<longrightarrow>
       connectionStatus s' \<in> {''disconnected'', ''connected'', ''error''}) \<and>
   (\<forall>e s s'. step loc e s = Some s' \<longrightarrow>
       connectionStatus s' =
         (case e of EvOpen \<Rightarrow> ''connected'' | EvClose \<Rightarrow> ''disconnected''
          | EvError \<Rightarrow> ''error'' | _ \<Rightarrow> connectionStatus s))"
proof -
  have i: "connectionStatus (init ed) = ''disconnected''"
    by (simp add: init_def)
  then have "connectionStatus (init ed) \<in> {''disconnected'', ''connected'', ''error''}"
    by simp
  with i show ?thesis
    using run_status_invariant step_status by blast
qed

theorem status_state_machine_witness:
  "run loc8080 (mount_and_open @ [EvError]) (init None) =
     Some (onerror (set_readyState CLOSING (connected_state None))) \<and>
   connectionStatus (onerror (set_readyState CLOSING (connected_state None))) = ''error'' \<and>
   step loc8080 EvClose (onerror (set_readyState CLOSING (connected_state None))) =
     Some (onclose (set_readyState CLOSED
                     (onerror (set_readyState CLOSING (connected_state None))))) \<and>
   connectionStatus (onclose (set_readyState CLOSED
                     (onerror (set_readyState CLOSING (connected_state None))))) =
     ''disconnected''"
proof -
  let ?s1 = "onerror (set_readyState CLOSING (connected_state None))"
  let ?s2 = "onclose (set_readyState CLOSED ?s1)"
  have e: "step loc8080 EvError (connected_state None) = Some ?s1"
    by (simp add: ws_state_def connected_state_def open_socket_def init_def)
  have r: "run loc8080 (mount_and_open @ [EvError]) (init None) = Some ?s1"
    using e by (simp add: run_append mount_and_open_reaches)
  have c: "step loc8080 EvClose ?s1 = Some ?s2"
    by (simp add: ws_state_def connected_state_def open_socket_def init_def
        set_readyState_def onerror_def console_error_def)
  from status_state_machine[of None loc8080] e c
  have "connectionStatus ?s1 = ''error''" and "connectionStatus ?s2 = ''disconnected''"
    by (fastforce, fastforce)
  with r c show ?thesis by simp
qed


subsection \<open>The global object\<close>

lemma globalAPIEffect_publishes:
  "strudelMCP (globalAPIEffect loc s) =
     (if isMCPServer_globalAPI loc \<and> editorRef s \<noteq> None
      then Some \<lparr>bridge_sessionId = sessionId s, bridge_connectionStatus = connectionStatus s\<rparr>
      else strudelMCP s)"
  by (auto simp: globalAPIEffect_def)

text \<open>
  C6. The global object is published exactly when the gate that governs opening the
  channel holds and an editor is attached; outside the allow-list nothing is done.

  The second half holds (\<open>inert_outside_allow_list\<close>). The first does not: the effect that
  publishes the object tests port 8080 only, while \<open>connectWebSocket\<close> and
  \<open>isMCPEnabled\<close> also accept port 8000. On \<^verbatim>\<open>localhost:8000\<close>, with an editor attached,
  the channel is opened and the hook reports the feature enabled, yet no object is
  published.
\<close>

theorem globalAPI_gate_misses_8000:
  "wsRef (connectWebSocket loc8000
            ((init (Some (editor_with_code ''note(60)'')))\<lparr>sessionId := ''abc1''\<rparr>)) =
     Some \<lparr>url = ''ws://localhost:8000/strudel/ws?session_id=abc1'',
           readyState = CONNECTING, sent = []\<rparr> \<and>
   isMCPEnabled loc8000 \<and>
   strudelMCP (globalAPIEffect loc8000
                 ((init (Some (editor_with_code ''note(60)'')))\<lparr>sessionId := ''abc1''\<rparr>)) = None"
  by (simp add: loc8000_def init_def connectWebSocket_def isMCPServer_def wsUrl_def
      isMCPEnabled_def globalAPIEffect_def isMCPServer_globalAPI_def)

subsection \<open>Dispatching a frame\<close>

text \<open>
  C7. A frame that does not parse is logged and dropped: the handler writes one error to the
  console and changes nothing else, so the channel stays as it was. A parsed message whose
  \<^verbatim>\<open>type\<close> is none of the recognized tags runs no handler and sends nothing: the state
  is unchanged (for the value null, which has no \<^verbatim>\<open>type\<close> to read, the handler logs an
  error and changes nothing else).
\<close>

theorem malformed_or_unrecognized_frame:
  "onmessage None s = s\<lparr>console_errors := console_errors s @ [MessageError]\<rparr> \<and>
   onmessage (Some JNull) s = s\<lparr>console_errors := console_errors s @ [MessageError]\<rparr> \<and>
   (\<forall>data. data \<noteq> JNull \<and>
           (\<forall>t \<in> set recognized_types. property data ''type'' \<noteq> Some (JStr t))
           \<longrightarrow> onmessage (Some data) s = s)"
  by (simp add: onmessage_def onmessage_try_not_null recognized_types_def)
    (simp add: onmessage_try_def console_error_def)

theorem malformed_or_unrecognized_frame_witness:
  "property (JObj [(''type'', JStr ''hello''), (''code'', JStr ''note(60)'')]) ''type'' =
     Some (JStr ''hello'') \<and>
   ''hello'' \<notin> set recognized_types \<and>
   onmessage (Some (JObj [(''type'', JStr ''hello''), (''code'', JStr ''note(60)'')]))
     (connected_state (Some (editor_with_code []))) =
   connected_state (Some (editor_with_code []))"
proof -
  let ?d = "JObj [(''type'', JStr ''hello''), (''code'', JStr ''note(60)'')]"
  have h: "?d \<noteq> JNull \<and>
           (\<forall>t \<in> set recognized_types. property ?d ''type'' \<noteq> Some (JStr t))"
    by (simp add: recognized_types_def)
  have "''hello'' \<notin> set recognized_types"
    by (simp add: recognized_types_def)
  with h malformed_or_unrecognized_frame[of "connected_state (Some (editor_with_code []))"]
  show ?thesis by simp
qed

text \<open>
  C8. A \<^verbatim>\<open>strudel-code\<close> message handled with an editor attached makes the handler call
  \<^verbatim>\<open>setCode\<close> with the \<^verbatim>\<open>code\<close> field of the message and then \<^verbatim>\<open>evaluate\<close>, in that
  order, and nothing else; \<^verbatim>\<open>metadata\<close> has no effect: any message with the same
  \<^verbatim>\<open>type\<close> and \<^verbatim>\<open>code\<close> is handled the same way.
\<close>

theorem strudel_code_sets_then_evaluates:
  assumes "editorRef s = Some ed"
    and "property data ''type'' = Some (JStr ''strudel-code'')"
  shows "onmessage (Some data) s =
           s\<lparr>calls := calls s @ [SetCode (property data ''code''), Evaluate]\<rparr> \<and>
         (\<forall>data'. property data' ''type'' = property data ''type'' \<and>
                   property data' ''code'' = property data ''code'' \<longrightarrow>
                   onmessage (Some data') s = onmessage (Some data) s)"
proof -
  have eq: "onmessage (Some d) s =
              s\<lparr>calls := calls s @ [SetCode (property d ''code''), Evaluate]\<rparr>"
    if "property d ''type'' = Some (JStr ''strudel-code'')" for d
    using that assms(1) property_not_null[OF that]
    by (simp add: onmessage_def onmessage_try_not_null)
  show ?thesis
    using eq[OF assms(2)] eq assms(2) by simp
qed

theorem strudel_code_sets_then_evaluates_witness:
  "editorRef (connected_state (Some (editor_with_code []))) = Some (editor_with_code []) \<and>
   property (JObj [(''type'', JStr ''strudel-code''), (''code'', JStr ''note(60)'')]) ''type''
     = Some (JStr ''strudel-code'') \<and>
   onmessage (Some (JObj [(''type'', JStr ''strudel-code''), (''code'', JStr ''note(60)'')]))
     (connected_state (Some (editor_with_code []))) =
   (connected_state (Some (editor_with_code [])))
     \<lparr>calls := [SetCode (Some (JStr ''note(60)'')), Evaluate]\<rparr> \<and>
   onmessage (Some (JObj [(''type'', JStr ''strudel-code''), (''code'', JStr ''note(60)''),
                          (''metadata'', JObj [(''description'', JStr ''a note'')])]))
     (connected_state (Some (editor_with_code []))) =
   onmessage (Some (JObj [(''type'', JStr ''strudel-code''), (''code'', JStr ''note(60)'')]))
     (connected_state (Some (editor_with_code [])))"
proof -
  let ?s = "connected_state (Some (editor_with_code []))"
  let ?d = "JObj [(''type'', JStr ''strudel-code''), (''code'', JStr ''note(60)'')]"
  let ?d' = "JObj [(''type'', JStr ''strudel-code''), (''code'', JStr ''note(60)''),
                   (''metadata'', JObj [(''description'', JStr ''a note'')])]"
  have h1: "editorRef ?s = Some (editor_with_code [])"
    by (simp add: connected_state_def init_def)
  have h2: "property ?d ''type'' = Some (JStr ''strudel-code'')"
    by simp
  note t = strudel_code_sets_then_evaluates[OF h1 h2]
  from t have a: "onmessage (Some ?d) ?s =
                    ?s\<lparr>calls := calls ?s @ [SetCode (property ?d ''code''), Evaluate]\<rparr>"
    by blast
  have "property ?d' ''type'' = property ?d ''type'' \<and>
        property ?d' ''code'' = property ?d ''code''"
    by simp
  with t have b: "onmessage (Some ?d') ?s = onmessage (Some ?d) ?s"
    by blast
  have c: "calls ?s = []"
    by (simp add: connected_state_def init_def)
  from h1 h2 a b c show ?thesis by simp
qed

text \<open>
  C9. A \<^verbatim>\<open>ping\<close> received on the open channel is answered by exactly one \<^verbatim>\<open>pong\<close>,
  which has no payload, on that channel, and nothing else changes; this holds whatever
  the editor reference is.
\<close>

theorem ping_sends_one_pong:
  assumes "wsRef s = Some ws" and "readyState ws = OPEN"
    and "property data ''type'' = Some (JStr ''ping'')"
  shows "\<forall>e. onmessage (Some data) (s\<lparr>editorRef := e\<rparr>) =
               s\<lparr>editorRef := e, wsRef := Some (ws\<lparr>sent := sent ws @ [Pong]\<rparr>)\<rparr>"
  using assms property_not_null[OF assms(3)]
  by (simp add: onmessage_def onmessage_try_not_null send_def)

theorem ping_sends_one_pong_witness:
  "wsRef (connected_state None) = Some open_socket \<and> readyState open_socket = OPEN \<and>
   property (JObj [(''type'', JStr ''ping'')]) ''type'' = Some (JStr ''ping'') \<and>
   sent_frames (onmessage (Some (JObj [(''type'', JStr ''ping'')])) (connected_state None)) =
     [Pong] \<and>
   sent_frames (onmessage (Some (JObj [(''type'', JStr ''ping'')]))
                  (connected_state (Some (editor_with_code ''note(60)'')))) = [Pong]"
proof -
  have h1: "wsRef (connected_state None) = Some open_socket"
    by (simp add: connected_state_def init_def)
  have h2: "readyState open_socket = OPEN"
    by (simp add: open_socket_def)
  have h3: "property (JObj [(''type'', JStr ''ping'')]) ''type'' = Some (JStr ''ping'')"
    by simp
  note t = ping_sends_one_pong[OF h1 h2 h3, rule_format]
  have e: "(connected_state None)\<lparr>editorRef := ed\<rparr> = connected_state ed" for ed
    by (simp add: connected_state_def init_def)
  have "sent_frames (onmessage (Some (JObj [(''type'', JStr ''ping'')])) (connected_state ed))
          = [Pong]" for ed
    using t[of ed] by (simp add: e sent_frames_def open_socket_def)
  with h1 h2 h3 show ?thesis by simp
qed

subsection \<open>The two copies of the message handler\<close>

text \<open>
  C10. For a message of type \<^verbatim>\<open>strudel-code\<close>, \<^verbatim>\<open>strudel-stop\<close>, \<^verbatim>\<open>stop\<close> or
  \<^verbatim>\<open>ping\<close>, the handler of the named file and the handler of the duplicate lead from
  the same state to the same state: the same calls of the editor in the same order, the
  same frames sent.
\<close>

theorem handlers_agree:
  assumes "property data ''type'' \<in>
             {Some (JStr ''strudel-code''), Some (JStr ''strudel-stop''),
              Some (JStr ''stop''), Some (JStr ''ping'')}"
  shows "onmessage_part001 (Some data) s = onmessage (Some data) s"
proof -
  from assms have nn: "data \<noteq> JNull"
    by (cases data) simp_all
  from assms have ng: "property data ''type'' \<noteq> Some (JStr ''get-current-code'')"
    by auto
  from nn ng show ?thesis
    by (cases data)
      (simp_all add: onmessage_part001_def onmessage_def onmessage_try_part001_def
        onmessage_try_def Let_def)
qed

theorem handlers_agree_witness:
  "property (JObj [(''type'', JStr ''stop'')]) ''type'' \<in>
     {Some (JStr ''strudel-code''), Some (JStr ''strudel-stop''),
      Some (JStr ''stop''), Some (JStr ''ping'')} \<and>
   onmessage_part001 (Some (JObj [(''type'', JStr ''stop'')]))
     (connected_state (Some (editor_with_code ''note(60)''))) =
   onmessage (Some (JObj [(''type'', JStr ''stop'')]))
     (connected_state (Some (editor_with_code ''note(60)''))) \<and>
   calls (onmessage (Some (JObj [(''type'', JStr ''stop'')]))
            (connected_state (Some (editor_with_code ''note(60)'')))) = [Stop]"
proof -
  have h: "property (JObj [(''type'', JStr ''stop'')]) ''type'' \<in>
             {Some (JStr ''strudel-code''), Some (JStr ''strudel-stop''),
              Some (JStr ''stop''), Some (JStr ''ping'')}"
    by simp
  have c: "calls (onmessage (Some (JObj [(''type'', JStr ''stop'')]))
            (connected_state (Some (editor_with_code ''note(60)'')))) = [Stop]"
    by (simp add: onmessage_def onmessage_try_def connected_state_def init_def)
  from handlers_agree[OF h, of "connected_state (Some (editor_with_code ''note(60)''))"] h c
  show ?thesis by simp
qed


end
